theory Spec2Isabelle
  imports Complex_Main
begin

section \<open>CivicTrack: geofenced submission, status updates, flags and votes\<close>

text \<open>
  A shallow embedding of the CivicTrack backend: the geolocation utilities
  (\<^verbatim>\<open>utils/geolocation.ts\<close>), the Mongoose issue model (\<^verbatim>\<open>models/Issue.ts\<close>) and the
  issue routes of the Express server (\<^verbatim>\<open>app.ts\<close>).

  JavaScript numbers are modelled as exact reals. Where the code's result depends on the
  rounding of IEEE doubles (the two-decimal rounding of the distance it reports), the
  operation is a parameter and not a definition. A value that may be \<^verbatim>\<open>undefined\<close> is an
  \<open>option\<close>. Dates are milliseconds since the epoch, and \<^verbatim>\<open>new Date()\<close> is the parameter
  \<open>now\<close>.

  A JavaScript string is a sequence of UTF-16 code units. A string here is a list of
  \<open>char\<close>, one for each code unit, so \<open>length\<close> is the string's \<^verbatim>\<open>length\<close>; the type covers
  the strings whose code units are below 256.
\<close>

subsection \<open>Geolocation utilities\<close>

record point =
  latitude :: real
  longitude :: real

text \<open>The argument shape of geolib's \<^verbatim>\<open>getDistance\<close>: \<^verbatim>\<open>{ lat, lon }\<close>.\<close>

record geolibPoint =
  lat :: real
  lon :: real

text \<open>
  \<^verbatim>\<open>calculateDistance\<close> hands both points to geolib's \<^verbatim>\<open>getDistance\<close> (metres) and
  divides by 1000. The library is not part of the repository, so the distance function
  is a parameter.
\<close>

definition calculateDistance ::
  "(geolibPoint \<Rightarrow> geolibPoint \<Rightarrow> real) \<Rightarrow> point \<Rightarrow> point \<Rightarrow> real" where
  "calculateDistance getDistance point1 point2 =
     (let distance = getDistance
        \<lparr>lat = latitude point1, lon = longitude point1\<rparr>
        \<lparr>lat = latitude point2, lon = longitude point2\<rparr>
      in distance / 1000)"

definition isWithinRadius ::
  "(geolibPoint \<Rightarrow> geolibPoint \<Rightarrow> real) \<Rightarrow> point \<Rightarrow> point \<Rightarrow> real \<Rightarrow> bool" where
  "isWithinRadius getDistance center pt radiusKm =
     (let distance = calculateDistance getDistance center pt
      in distance \<le> radiusKm)"

text \<open>
  Modelled from the spec: geolib's \<^verbatim>\<open>getDistance\<close> is missing from the sources. The
  spec describes the distance as the haversine great-circle distance with Earth radius
  6371 km; the value is in metres, the unit \<^verbatim>\<open>calculateDistance\<close> divides by 1000.
\<close>

definition toRad :: "real \<Rightarrow> real" where
  "toRad deg = deg * pi / 180"

definition haversineMetres :: "geolibPoint \<Rightarrow> geolibPoint \<Rightarrow> real" where
  "haversineMetres a b =
     (let dLat = toRad (lat b - lat a);
          dLon = toRad (lon b - lon a);
          h = (sin (dLat / 2))\<^sup>2 + cos (toRad (lat a)) * cos (toRad (lat b)) * (sin (dLon / 2))\<^sup>2
      in 6371000 * (2 * arcsin (sqrt h)))"

definition isValidCoordinates :: "real \<Rightarrow> real \<Rightarrow> bool" where
  "isValidCoordinates = (\<lambda>latitude longitude.
     latitude \<ge> -90 \<and> latitude \<le> 90 \<and> longitude \<ge> -180 \<and> longitude \<le> 180)"

subsection \<open>Documents\<close>

type_synonym objectId = nat
type_synonym date = int

record location =
  latitude :: "real option"
  longitude :: "real option"
  address :: "string option"
  district :: "string option"
  ward :: "string option"

text \<open>
  \<^verbatim>\<open>IUser\<close>, restricted to the fields the issue routes read. \<^verbatim>\<open>IIssue\<close> with the
  fields of \<^verbatim>\<open>issueSchema\<close>; \<open>oid\<close> is the document's \<^verbatim>\<open>_id\<close>. The string fields hold
  what the schema stores: \<^verbatim>\<open>status\<close>, \<^verbatim>\<open>category\<close> and \<^verbatim>\<open>priority\<close> are strings checked
  against an \<^verbatim>\<open>enum\<close> list by the validators.
\<close>

record IUser =
  name :: string
  role :: string
  isBanned :: bool
  defaultLocation :: "location option"
  preferredRadiusKm :: "real option"

record IIssue =
  oid :: objectId
  title :: string
  description :: string
  category :: string
  priority :: string
  status :: string
  location :: location
  reportedBy :: objectId
  assignedTo :: "objectId option"
  images :: "string list"
  upvotes :: "objectId list"
  downvotes :: "objectId list"
  views :: int
  isVerified :: bool
  estimatedResolutionDate :: "date option"
  actualResolutionDate :: "date option"
  resolutionNotes :: "string option"
  tags :: "string list"
  isPublic :: bool
  isFlagged :: bool
  flaggedReason :: "string option"
  flaggedBy :: "objectId option"
  flaggedAt :: "date option"
  createdAt :: date
  updatedAt :: date

text \<open>\<^verbatim>\<open>IStatusHistory\<close> of \<^verbatim>\<open>models/index.ts\<close>: the collection that would hold status events.\<close>

record IStatusHistory =
  issueId :: objectId
  previousStatus :: string
  newStatus :: string
  changedBy :: objectId
  changeReason :: "string option"
  historyCreatedAt :: date

text \<open>The database: the three collections the claims are about.\<close>

record db =
  users :: "objectId \<rightharpoonup> IUser"
  issues :: "IIssue list"
  statusHistories :: "IStatusHistory list"

subsection \<open>Strings: truthiness, \<^verbatim>\<open>trim\<close>, \<^verbatim>\<open>lowercase\<close>, the image URL pattern\<close>

definition truthyStr :: "string option \<Rightarrow> bool" where
  "truthyStr v = (case v of None \<Rightarrow> False | Some s \<Rightarrow> s \<noteq> [])"

definition truthyNum :: "real option \<Rightarrow> bool" where
  "truthyNum v = (case v of None \<Rightarrow> False | Some x \<Rightarrow> x \<noteq> 0)"

text \<open>\<^verbatim>\<open>!v\<close> on a string and on a number.\<close>

definition falsyStr :: "string option \<Rightarrow> bool" where
  "falsyStr v = (\<not> truthyStr v)"

definition falsyNum :: "real option \<Rightarrow> bool" where
  "falsyNum v = (\<not> truthyNum v)"

text \<open>
  \<^verbatim>\<open>String.prototype.trim\<close> strips white space and line terminators from both ends. The
  code units below 256 among them are TAB, LF, VT, FF, CR, SPACE and NO-BREAK SPACE
  (U+00A0).
\<close>

definition isSpace :: "char \<Rightarrow> bool" where
  "isSpace c =
     (c \<in> set [CHR '' '', CHR 0x09, CHR 0x0A, CHR 0x0B, CHR 0x0C, CHR 0x0D, CHR 0xA0])"

definition trim :: "string \<Rightarrow> string" where
  "trim s = rev (dropWhile isSpace (rev (dropWhile isSpace s)))"

text \<open>
  \<^verbatim>\<open>String.prototype.toLowerCase\<close>. Below 256 the letters with a lower-case form are A to Z
  and U+00C0 to U+00DE without the multiplication sign U+00D7; each maps to the code unit
  32 above it.
\<close>

definition upperLetters :: string where
  "upperLetters = ''ABCDEFGHIJKLMNOPQRSTUVWXYZ'' @
     [CHR 0xC0, CHR 0xC1, CHR 0xC2, CHR 0xC3, CHR 0xC4, CHR 0xC5, CHR 0xC6, CHR 0xC7,
      CHR 0xC8, CHR 0xC9, CHR 0xCA, CHR 0xCB, CHR 0xCC, CHR 0xCD, CHR 0xCE, CHR 0xCF,
      CHR 0xD0, CHR 0xD1, CHR 0xD2, CHR 0xD3, CHR 0xD4, CHR 0xD5, CHR 0xD6,
      CHR 0xD8, CHR 0xD9, CHR 0xDA, CHR 0xDB, CHR 0xDC, CHR 0xDD, CHR 0xDE]"

definition lowerLetters :: string where
  "lowerLetters = ''abcdefghijklmnopqrstuvwxyz'' @
     [CHR 0xE0, CHR 0xE1, CHR 0xE2, CHR 0xE3, CHR 0xE4, CHR 0xE5, CHR 0xE6, CHR 0xE7,
      CHR 0xE8, CHR 0xE9, CHR 0xEA, CHR 0xEB, CHR 0xEC, CHR 0xED, CHR 0xEE, CHR 0xEF,
      CHR 0xF0, CHR 0xF1, CHR 0xF2, CHR 0xF3, CHR 0xF4, CHR 0xF5, CHR 0xF6,
      CHR 0xF8, CHR 0xF9, CHR 0xFA, CHR 0xFB, CHR 0xFC, CHR 0xFD, CHR 0xFE]"

definition lowerChar :: "char \<Rightarrow> char" where
  "lowerChar c = (case map_of (zip upperLetters lowerLetters) c of None \<Rightarrow> c | Some l \<Rightarrow> l)"

definition toLowerCase :: "string \<Rightarrow> string" where
  "toLowerCase s = map lowerChar s"

text \<open>
  Case folding under the \<^verbatim>\<open>i\<close> flag of a regular expression whose letters are ASCII: only
  the ASCII letters fold onto them.
\<close>

definition foldAscii :: "char \<Rightarrow> char" where
  "foldAscii c =
     (case map_of (zip ''ABCDEFGHIJKLMNOPQRSTUVWXYZ'' ''abcdefghijklmnopqrstuvwxyz'') c of
        None \<Rightarrow> c
      | Some l \<Rightarrow> l)"

definition startsWith :: "string \<Rightarrow> string \<Rightarrow> bool" where
  "startsWith pre s = (take (length pre) s = pre)"

definition endsWith :: "string \<Rightarrow> string \<Rightarrow> bool" where
  "endsWith suf s = (length suf \<le> length s \<and> drop (length s - length suf) s = suf)"

text \<open>
  One alternative of the image pattern, \<^verbatim>\<open>^pre.+\.ext$\<close> under the \<^verbatim>\<open>i\<close> flag: after the
  prefix comes at least one character other than a line terminator, then the dot and the
  extension, which end the string.
\<close>

definition matchesAlt :: "string \<Rightarrow> string \<Rightarrow> string \<Rightarrow> bool" where
  "matchesAlt pre ext url =
     (let l = map foldAscii url;
          suf = CHR ''.'' # ext;
          middle = take (length l - length pre - length suf) (drop (length pre) l)
      in startsWith pre l \<and> endsWith suf l
         \<and> length pre + 1 + length suf \<le> length l
         \<and> list_all (\<lambda>c. c \<noteq> CHR 0x0A \<and> c \<noteq> CHR 0x0D) middle)"

definition imageExtensions :: "string list" where
  "imageExtensions = [''jpg'', ''jpeg'', ''png'', ''gif'', ''webp'']"

text \<open>
  \<^verbatim>\<open>/^(https?:\/\/.+\.(jpg|jpeg|png|gif|webp)|\/uploads\/.+\.(jpg|jpeg|png|gif|webp))$/i\<close>
\<close>

definition isImageUrl :: "string \<Rightarrow> bool" where
  "isImageUrl url =
     list_ex (\<lambda>pre. list_ex (\<lambda>ext. matchesAlt pre ext url) imageExtensions)
       [''http://'', ''https://'', ''/uploads/'']"

subsection \<open>The issue schema: validators and the pre-save middleware\<close>

definition categories :: "string list" where
  "categories = [''infrastructure'', ''environment'', ''safety'', ''utilities'',
     ''transportation'', ''housing'', ''health'', ''education'', ''other'']"

definition priorities :: "string list" where
  "priorities = [''low'', ''medium'', ''high'', ''critical'']"

definition validStatuses :: "string list" where
  "validStatuses = [''reported'', ''in_review'', ''in_progress'', ''resolved'', ''closed'', ''rejected'']"

definition inRange :: "real \<Rightarrow> real \<Rightarrow> real option \<Rightarrow> bool" where
  "inRange lo hi v = (case v of None \<Rightarrow> False | Some x \<Rightarrow> lo \<le> x \<and> x \<le> hi)"

definition lengthBetween :: "nat \<Rightarrow> nat \<Rightarrow> string \<Rightarrow> bool" where
  "lengthBetween lo hi s = (lo \<le> length s \<and> length s \<le> hi)"

definition maxLengthOpt :: "nat \<Rightarrow> string option \<Rightarrow> bool" where
  "maxLengthOpt hi v = (case v of None \<Rightarrow> True | Some s \<Rightarrow> length s \<le> hi)"

text \<open>
  Document validation as \<^verbatim>\<open>save\<close> runs it, on the values the setters (\<^verbatim>\<open>trim\<close>,
  \<^verbatim>\<open>lowercase\<close>) have stored: \<^verbatim>\<open>required\<close> rejects a missing value and the empty string.
\<close>

definition validateIssue :: "IIssue \<Rightarrow> bool" where
  "validateIssue doc =
     (title doc \<noteq> [] \<and> lengthBetween 10 200 (title doc)
      \<and> description doc \<noteq> [] \<and> lengthBetween 20 2000 (description doc)
      \<and> category doc \<in> set categories
      \<and> priority doc \<in> set priorities
      \<and> status doc \<in> set validStatuses
      \<and> inRange (-90) 90 (latitude (location doc))
      \<and> inRange (-180) 180 (longitude (location doc))
      \<and> truthyStr (address (location doc)) \<and> maxLengthOpt 500 (address (location doc))
      \<and> list_all isImageUrl (images doc)
      \<and> 0 \<le> views doc
      \<and> maxLengthOpt 1000 (resolutionNotes doc)
      \<and> list_all (\<lambda>t. length t \<le> 50) (tags doc)
      \<and> maxLengthOpt 500 (flaggedReason doc))"

text \<open>
  \<^verbatim>\<open>issueSchema.pre('save', ...)\<close>. \<open>modified\<close> lists the paths for which
  \<^verbatim>\<open>this.isModified\<close> holds. A \<^verbatim>\<open>Date\<close> is truthy, \<^verbatim>\<open>undefined\<close> is not.
\<close>

definition preSave :: "string list \<Rightarrow> date \<Rightarrow> IIssue \<Rightarrow> IIssue" where
  "preSave modified now doc =
     (let d1 = (if ''status'' \<in> set modified \<and> status doc = ''resolved''
                   \<and> actualResolutionDate doc = None
                then doc\<lparr>actualResolutionDate := Some now\<rparr> else doc);
          d2 = (if ''status'' \<in> set modified \<and> status d1 \<noteq> ''resolved''
                   \<and> actualResolutionDate d1 \<noteq> None
                then d1\<lparr>actualResolutionDate := None\<rparr> else d1);
          d3 = (if ''isFlagged'' \<in> set modified \<and> isFlagged d2 \<and> flaggedAt d2 = None
                then d2\<lparr>flaggedAt := Some now\<rparr> else d2);
          d4 = (if ''isFlagged'' \<in> set modified \<and> \<not> isFlagged d3
                then d3\<lparr>flaggedAt := None, flaggedReason := None, flaggedBy := None\<rparr>
                else d3)
      in d4)"

subsection \<open>Persistence: \<^verbatim>\<open>findById\<close>, \<^verbatim>\<open>save\<close>, \<^verbatim>\<open>findByIdAndUpdate\<close>\<close>

definition findById :: "objectId \<Rightarrow> IIssue list \<Rightarrow> IIssue option" where
  "findById i xs = find (\<lambda>x. oid x = i) xs"

fun replaceById :: "objectId \<Rightarrow> IIssue \<Rightarrow> IIssue list \<Rightarrow> IIssue list" where
  "replaceById i new [] = []"
| "replaceById i new (x # xs) = (if oid x = i then new # xs else x # replaceById i new xs)"

text \<open>
  \<^verbatim>\<open>doc.save()\<close> of a new document: validation, then the pre-save middleware, then the
  insert; \<^verbatim>\<open>timestamps: true\<close> stamps both dates. \<open>None\<close> is the rejected promise.
\<close>

definition saveNew :: "string list \<Rightarrow> date \<Rightarrow> IIssue \<Rightarrow> db \<Rightarrow> (IIssue \<times> db) option" where
  "saveNew modified now doc d =
     (if \<not> validateIssue doc then None
      else
        let saved = (preSave modified now doc)\<lparr>createdAt := now, updatedAt := now\<rparr>
        in Some (saved, d\<lparr>issues := issues d @ [saved]\<rparr>))"

text \<open>\<^verbatim>\<open>doc.save()\<close> of a loaded document; it fails when the document is gone.\<close>

definition saveExisting :: "string list \<Rightarrow> date \<Rightarrow> IIssue \<Rightarrow> db \<Rightarrow> (IIssue \<times> db) option" where
  "saveExisting modified now doc d =
     (if \<not> validateIssue doc then None
      else if findById (oid doc) (issues d) = None then None
      else
        let saved = (preSave modified now doc)\<lparr>updatedAt := now\<rparr>
        in Some (saved, d\<lparr>issues := replaceById (oid doc) saved (issues d)\<rparr>))"

text \<open>
  \<^verbatim>\<open>Issue.findByIdAndUpdate(id, update, { new: true, ... })\<close>: the update is written to
  the stored document and the updated document is returned. It is a query, so no
  \<^verbatim>\<open>pre('save')\<close> middleware runs; \<^verbatim>\<open>timestamps\<close> still sets \<^verbatim>\<open>updatedAt\<close>.
\<close>

definition findByIdAndUpdate ::
  "objectId \<Rightarrow> (IIssue \<Rightarrow> IIssue) \<Rightarrow> date \<Rightarrow> db \<Rightarrow> IIssue option \<times> db" where
  "findByIdAndUpdate i update now d =
     (case findById i (issues d) of
        None \<Rightarrow> (None, d)
      | Some doc \<Rightarrow>
          let new = (update doc)\<lparr>updatedAt := now\<rparr>
          in (Some new, d\<lparr>issues := replaceById i new (issues d)\<rparr>))"

subsection \<open>Votes: \<^verbatim>\<open>hasUserVoted\<close> and \<^verbatim>\<open>toggleVote\<close>\<close>

datatype voteType = upvote | downvote

text \<open>
  \<^verbatim>\<open>new mongoose.Types.ObjectId(userId)\<close> throws on a string that is no id; the
  constructor is the parameter \<open>castObjectId\<close>, and \<open>None\<close> is the exception.
\<close>

definition hasUserVoted ::
  "(string \<Rightarrow> objectId option) \<Rightarrow> string \<Rightarrow> IIssue \<Rightarrow> voteType option option" where
  "hasUserVoted castObjectId userId doc =
     (case castObjectId userId of
        None \<Rightarrow> None
      | Some userObjectId \<Rightarrow>
          let hasUpvoted = list_ex (\<lambda>i. i = userObjectId) (upvotes doc);
              hasDownvoted = list_ex (\<lambda>i. i = userObjectId) (downvotes doc)
          in if hasUpvoted then Some (Some upvote)
             else if hasDownvoted then Some (Some downvote)
             else Some None)"

definition toggleVote ::
  "(string \<Rightarrow> objectId option) \<Rightarrow> date \<Rightarrow> string \<Rightarrow> voteType \<Rightarrow> IIssue \<Rightarrow> db
     \<Rightarrow> (IIssue \<times> db) option" where
  "toggleVote castObjectId now userId vt doc d =
     (case castObjectId userId of
        None \<Rightarrow> None
      | Some userObjectId \<Rightarrow>
          let d1 = doc\<lparr>upvotes := filter (\<lambda>i. \<not> i = userObjectId) (upvotes doc)\<rparr>;
              d2 = d1\<lparr>downvotes := filter (\<lambda>i. \<not> i = userObjectId) (downvotes d1)\<rparr>;
              d3 = (if vt = upvote then d2\<lparr>upvotes := upvotes d2 @ [userObjectId]\<rparr>
                    else d2\<lparr>downvotes := downvotes d2 @ [userObjectId]\<rparr>)
          in saveExisting [''upvotes'', ''downvotes''] now d3 d)"

subsection \<open>\<^verbatim>\<open>POST /api/v1/issues\<close>: create an issue with location validation\<close>

record createBody =
  req_title :: "string option"
  req_description :: "string option"
  req_category :: "string option"
  req_priority :: "string option"
  req_location :: "location option"
  req_images :: "string list option"
  req_tags :: "string list option"
  req_isPublic :: "bool option"
  req_reportedBy :: "string option"

text \<open>The \<^verbatim>\<open>data\<close> object of the 400 response sent when the issue is too far away.\<close>

record geofenceData =
  distance :: real
  maxAllowed :: real
  userLocation :: location
  issueLocation :: location

datatype createResponse =
    MissingRequiredFields
  | LocationIncomplete
  | UserNotFound
  | DefaultLocationNotSet
  | OutsideRadius geofenceData
  | IssueCreated IIssue
  | CreateFailed

text \<open>\<^verbatim>\<open>v || dflt\<close> on a number and on a string.\<close>

definition numOr :: "real option \<Rightarrow> real \<Rightarrow> real" where
  "numOr v dflt = (case v of None \<Rightarrow> dflt | Some x \<Rightarrow> if x = 0 then dflt else x)"

definition strOr :: "string option \<Rightarrow> string \<Rightarrow> string" where
  "strOr v dflt = (case v of None \<Rightarrow> dflt | Some x \<Rightarrow> if x = [] then dflt else x)"

definition listOr :: "'a list option \<Rightarrow> 'a list" where
  "listOr v = (case v of None \<Rightarrow> [] | Some xs \<Rightarrow> xs)"

text \<open>\<^verbatim>\<open>Math.min(user.preferredRadiusKm || 5, 5)\<close>\<close>

definition maxAllowedRadius :: "IUser \<Rightarrow> real" where
  "maxAllowedRadius user = min (numOr (preferredRadiusKm user) 5) 5"

text \<open>
  The document \<^verbatim>\<open>new Issue({...})\<close> builds: the schema's setters trim the title, the
  description and the address and lower-case the tags; the other fields take their
  defaults.
\<close>

definition newIssue :: "objectId \<Rightarrow> objectId \<Rightarrow> createBody \<Rightarrow> location \<Rightarrow> IIssue" where
  "newIssue newId reporter body loc =
     \<lparr>oid = newId,
      title = trim (the (req_title body)),
      description = trim (the (req_description body)),
      category = the (req_category body),
      priority = strOr (req_priority body) ''medium'',
      status = ''reported'',
      location = loc\<lparr>address := map_option trim (address loc)\<rparr>,
      reportedBy = reporter,
      assignedTo = None,
      images = listOr (req_images body),
      upvotes = [],
      downvotes = [],
      views = 0,
      isVerified = False,
      estimatedResolutionDate = None,
      actualResolutionDate = None,
      resolutionNotes = None,
      tags = map (\<lambda>t. toLowerCase (trim t)) (listOr (req_tags body)),
      isPublic = (case req_isPublic body of None \<Rightarrow> True | Some b \<Rightarrow> b),
      isFlagged = False,
      flaggedReason = None,
      flaggedBy = None,
      flaggedAt = None,
      createdAt = 0,
      updatedAt = 0\<rparr>"

definition createModified :: "string list" where
  "createModified = [''title'', ''description'', ''category'', ''priority'', ''location'',
     ''reportedBy'', ''images'', ''tags'', ''isPublic'', ''views'', ''upvotes'', ''downvotes'']"

text \<open>
  The handler. Each \<^verbatim>\<open>return res.status(...)\<close> is one constructor of the response; an
  exception (an id that does not cast, a failed validation in \<^verbatim>\<open>save\<close>) reaches the
  \<^verbatim>\<open>catch\<close> and is \<open>CreateFailed\<close>. Where a field is read with \<open>the\<close>, the truthiness
  test above it has established that the field is present. The message strings of the
  responses are left out.

  The payload's distance is \<^verbatim>\<open>Math.round(distance * 100) / 100\<close>, evaluated in IEEE double
  arithmetic, where the product can fall on either side of a half (5.015 * 100 is
  501.49999999999994, so the payload says 5.01). Exact reals do not reproduce this, so
  the rounding is the parameter \<open>round2\<close>.
\<close>

definition createIssue ::
  "(geolibPoint \<Rightarrow> geolibPoint \<Rightarrow> real) \<Rightarrow> (real \<Rightarrow> real) \<Rightarrow> (string \<Rightarrow> objectId option)
     \<Rightarrow> objectId \<Rightarrow> date \<Rightarrow> createBody \<Rightarrow> db \<Rightarrow> createResponse \<times> db" where
  "createIssue getDistance round2 castObjectId newId now body d =
     (if falsyStr (req_title body) \<or> falsyStr (req_description body)
         \<or> falsyStr (req_category body) \<or> req_location body = None
         \<or> falsyStr (req_reportedBy body)
      then (MissingRequiredFields, d)
      else
        let loc = the (req_location body) in
        if falsyNum (latitude loc) \<or> falsyNum (longitude loc) \<or> falsyStr (address loc)
        then (LocationIncomplete, d)
        else
          case castObjectId (the (req_reportedBy body)) of
            None \<Rightarrow> (CreateFailed, d)
          | Some reporter \<Rightarrow>
              (case users d reporter of
                 None \<Rightarrow> (UserNotFound, d)
               | Some user \<Rightarrow>
                   if defaultLocation user = None
                      \<or> falsyNum (latitude (the (defaultLocation user)))
                      \<or> falsyNum (longitude (the (defaultLocation user)))
                   then (DefaultLocationNotSet, d)
                   else
                     let home = the (defaultLocation user);
                         dist = calculateDistance getDistance
                           \<lparr>point.latitude = the (latitude home),
                            point.longitude = the (longitude home)\<rparr>
                           \<lparr>point.latitude = the (latitude loc),
                            point.longitude = the (longitude loc)\<rparr>
                     in
                     if dist > maxAllowedRadius user
                     then (OutsideRadius
                             \<lparr>distance = round2 dist,
                              maxAllowed = maxAllowedRadius user,
                              userLocation = \<lparr>latitude = latitude home,
                                longitude = longitude home, address = address home,
                                district = None, ward = None\<rparr>,
                              issueLocation = loc\<rparr>, d)
                     else
                       (case saveNew createModified now (newIssue newId reporter body loc) d of
                          None \<Rightarrow> (CreateFailed, d)
                        | Some (saved, d') \<Rightarrow> (IssueCreated saved, d'))))"

subsection \<open>Authentication middleware\<close>

text \<open>
  What \<^verbatim>\<open>authenticateToken\<close> finds in the request: no token, a token that does not
  verify, or the verified payload, of which \<^verbatim>\<open>requireAdmin\<close> reads the role.
\<close>

datatype auth = NoToken | InvalidToken | Verified string

datatype authFailure = AccessTokenRequired | InvalidOrExpiredToken | AdminAccessRequired

definition adminOnly :: "auth \<Rightarrow> authFailure option" where
  "adminOnly a =
     (case a of
        NoToken \<Rightarrow> Some AccessTokenRequired
      | InvalidToken \<Rightarrow> Some InvalidOrExpiredToken
      | Verified r \<Rightarrow> if r = ''admin'' then None else Some AdminAccessRequired)"

subsection \<open>\<^verbatim>\<open>PUT /api/v1/issues/:id\<close>: update issue status (for admin use)\<close>

record updateBody =
  upd_status :: "string option"
  upd_priority :: "string option"
  upd_tags :: "string list option"

datatype updateResponse =
    UpdateDenied authFailure
  | InvalidStatus
  | IssueNotFound
  | IssueUpdated IIssue
  | UpdateFailed

text \<open>
  \<^verbatim>\<open>updateData\<close> applied to a document. \<^verbatim>\<open>reviewedAt\<close> is no path of the schema, so the
  strict schema drops it.
\<close>

definition applyUpdateData :: "updateBody \<Rightarrow> IIssue \<Rightarrow> IIssue" where
  "applyUpdateData body doc =
     (let d1 = (if truthyStr (upd_status body) then doc\<lparr>status := the (upd_status body)\<rparr> else doc);
          d2 = (if truthyStr (upd_priority body) then d1\<lparr>priority := the (upd_priority body)\<rparr> else d1);
          d3 = (case upd_tags body of
                  None \<Rightarrow> d2
                | Some ts \<Rightarrow> d2\<lparr>tags := map (\<lambda>t. toLowerCase (trim t)) ts\<rparr>)
      in d3)"

text \<open>\<^verbatim>\<open>runValidators: true\<close>: the validators of the paths the update sets.\<close>

definition updateValid :: "updateBody \<Rightarrow> bool" where
  "updateValid body =
     ((if truthyStr (upd_status body) then the (upd_status body) \<in> set validStatuses else True)
      \<and> (if truthyStr (upd_priority body) then the (upd_priority body) \<in> set priorities else True)
      \<and> list_all (\<lambda>t. length (toLowerCase (trim t)) \<le> 50) (listOr (upd_tags body)))"

definition updateIssue ::
  "(string \<Rightarrow> objectId option) \<Rightarrow> date \<Rightarrow> auth \<Rightarrow> string \<Rightarrow> updateBody \<Rightarrow> db
     \<Rightarrow> updateResponse \<times> db" where
  "updateIssue castObjectId now a idParam body d =
     (case adminOnly a of
        Some e \<Rightarrow> (UpdateDenied e, d)
      | None \<Rightarrow>
          if truthyStr (upd_status body) \<and> the (upd_status body) \<notin> set validStatuses
          then (InvalidStatus, d)
          else
            (case castObjectId idParam of
               None \<Rightarrow> (UpdateFailed, d)
             | Some i \<Rightarrow>
                 if \<not> updateValid body then (UpdateFailed, d)
                 else
                   (case findByIdAndUpdate i (applyUpdateData body) now d of
                      (None, d') \<Rightarrow> (IssueNotFound, d')
                    | (Some updatedIssue, d') \<Rightarrow> (IssueUpdated updatedIssue, d'))))"

subsection \<open>\<^verbatim>\<open>POST /api/v1/issues/:id/flag\<close>: flag an issue\<close>

record flagBody =
  flag_reason :: "string option"
  flag_reportedBy :: "string option"

datatype flagResponse =
    FlagFieldsRequired
  | FlagIssueNotFound
  | IssueFlagged IIssue
  | FlagFailed

definition flagIssue ::
  "(string \<Rightarrow> objectId option) \<Rightarrow> date \<Rightarrow> string \<Rightarrow> flagBody \<Rightarrow> db \<Rightarrow> flagResponse \<times> db" where
  "flagIssue castObjectId now idParam body d =
     (if falsyStr (flag_reason body) \<or> falsyStr (flag_reportedBy body)
      then (FlagFieldsRequired, d)
      else
        case castObjectId idParam of
          None \<Rightarrow> (FlagFailed, d)
        | Some i \<Rightarrow>
            (case castObjectId (the (flag_reportedBy body)) of
               None \<Rightarrow> (FlagFailed, d)
             | Some flagger \<Rightarrow>
                 if length (the (flag_reason body)) > 500 then (FlagFailed, d)
                 else
                   (case findByIdAndUpdate i
                           (\<lambda>doc. doc\<lparr>isFlagged := True,
                                      flaggedReason := flag_reason body,
                                      flaggedBy := Some flagger,
                                      flaggedAt := Some now\<rparr>) now d of
                      (None, d') \<Rightarrow> (FlagIssueNotFound, d')
                    | (Some issue, d') \<Rightarrow> (IssueFlagged issue, d'))))"

subsection \<open>\<^verbatim>\<open>GET /api/v1/issues\<close> and \<^verbatim>\<open>GET /api/v1/admin/issues\<close>: list issues\<close>

text \<open>\<^verbatim>\<open>parseInt(s, 10)\<close>: leading white space, an optional sign, then digits; \<open>None\<close> is NaN.\<close>

definition isDigit :: "char \<Rightarrow> bool" where
  "isDigit c = (48 \<le> (of_char c :: nat) \<and> (of_char c :: nat) \<le> 57)"

definition digitsValue :: "string \<Rightarrow> int" where
  "digitsValue ds = foldl (\<lambda>acc c. 10 * acc + (int (of_char c) - 48)) 0 ds"

definition parseInt :: "string \<Rightarrow> int option" where
  "parseInt s =
     (let t = dropWhile isSpace s;
          negative = (t \<noteq> [] \<and> hd t = CHR ''-'');
          signed = (t \<noteq> [] \<and> (hd t = CHR ''-'' \<or> hd t = CHR ''+''));
          ds = takeWhile isDigit (if signed then tl t else t)
      in if ds = [] then None
         else Some (if negative then - digitsValue ds else digitsValue ds))"

record listQuery =
  q_page :: "string option"
  q_limit :: "string option"
  q_category :: "string option"
  q_status :: "string option"
  q_priority :: "string option"
  q_search :: "string option"
  q_latitude :: "string option"
  q_longitude :: "string option"
  q_radius :: "string option"
  q_userId :: "string option"

text \<open>The filter object \<^verbatim>\<open>query\<close> the handlers build; an absent key is \<open>None\<close> or \<open>False\<close>.\<close>

record issueQuery =
  qy_reportedBy :: "string option"
  qy_isFlaggedNeTrue :: bool
  qy_category :: "string option"
  qy_status :: "string option"
  qy_priority :: "string option"
  qy_text :: "string option"

definition emptyQuery :: issueQuery where
  "emptyQuery = \<lparr>qy_reportedBy = None, qy_isFlaggedNeTrue = False, qy_category = None,
     qy_status = None, qy_priority = None, qy_text = None\<rparr>"

text \<open>
  Whether a document matches the filter. \<open>reporter\<close> is the id \<^verbatim>\<open>query.reportedBy\<close> was
  cast to. The \<^verbatim>\<open>$text\<close> operator searches MongoDB's text index; it is the parameter
  \<open>textSearch\<close>.
\<close>

definition matchesQuery ::
  "(string \<Rightarrow> IIssue \<Rightarrow> bool) \<Rightarrow> objectId option \<Rightarrow> issueQuery \<Rightarrow> IIssue \<Rightarrow> bool" where
  "matchesQuery textSearch reporter q doc =
     ((case reporter of None \<Rightarrow> True | Some u \<Rightarrow> reportedBy doc = u)
      \<and> (if qy_isFlaggedNeTrue q then \<not> isFlagged doc else True)
      \<and> (case qy_category q of None \<Rightarrow> True | Some c \<Rightarrow> category doc = c)
      \<and> (case qy_status q of None \<Rightarrow> True | Some st \<Rightarrow> status doc = st)
      \<and> (case qy_priority q of None \<Rightarrow> True | Some pr \<Rightarrow> priority doc = pr)
      \<and> (case qy_text q of None \<Rightarrow> True | Some t \<Rightarrow> textSearch t doc))"

text \<open>
  \<^verbatim>\<open>Issue.find(query)\<close>: \<open>None\<close> when \<^verbatim>\<open>reportedBy\<close> does not cast to an id (the query
  throws).
\<close>

definition findIssues ::
  "(string \<Rightarrow> IIssue \<Rightarrow> bool) \<Rightarrow> (string \<Rightarrow> objectId option) \<Rightarrow> issueQuery \<Rightarrow> IIssue list
     \<Rightarrow> IIssue list option" where
  "findIssues textSearch castObjectId q docs =
     (case qy_reportedBy q of
        None \<Rightarrow> Some (filter (matchesQuery textSearch None q) docs)
      | Some u \<Rightarrow>
          (case castObjectId u of
             None \<Rightarrow> None
           | Some reporter \<Rightarrow> Some (filter (matchesQuery textSearch (Some reporter) q) docs)))"

text \<open>\<^verbatim>\<open>.sort({ createdAt: -1 })\<close>\<close>

definition sortCreatedAtDesc :: "IIssue list \<Rightarrow> IIssue list" where
  "sortCreatedAtDesc docs = sort_key (\<lambda>doc. - createdAt doc) docs"

text \<open>
  \<^verbatim>\<open>.skip(skip).limit(limitNum)\<close>: the server rejects a negative skip; limit 0 is no
  limit, and the driver sends a negative limit as its absolute value.
\<close>

definition skipLimit :: "int \<Rightarrow> int \<Rightarrow> IIssue list \<Rightarrow> IIssue list option" where
  "skipLimit skip limitNum docs =
     (if skip < 0 then None
      else
        let rest = drop (nat skip) docs
        in Some (if limitNum = 0 then rest else take (nat \<bar>limitNum\<bar>) rest))"

record pagination =
  pageNo :: int
  pageLimit :: int
  total :: nat

datatype listResponse =
    ListDenied authFailure
  | IssueList "IIssue list" pagination
  | ListFailed

text \<open>The query pipeline both list handlers share, after the filter is built.\<close>

definition runList ::
  "(string \<Rightarrow> IIssue \<Rightarrow> bool) \<Rightarrow> (string \<Rightarrow> objectId option) \<Rightarrow> issueQuery
     \<Rightarrow> string option \<Rightarrow> string \<Rightarrow> string option \<Rightarrow> string \<Rightarrow> db \<Rightarrow> listResponse" where
  "runList textSearch castObjectId query page pageDefault limit limitDefault d =
     (case (parseInt (case page of None \<Rightarrow> pageDefault | Some v \<Rightarrow> v),
            parseInt (case limit of None \<Rightarrow> limitDefault | Some v \<Rightarrow> v)) of
        (Some pageNum, Some limitNum) \<Rightarrow>
          let skip = (pageNum - 1) * limitNum in
          (case findIssues textSearch castObjectId query (issues d) of
             None \<Rightarrow> ListFailed
           | Some found \<Rightarrow>
               (case skipLimit skip limitNum (sortCreatedAtDesc found) of
                  None \<Rightarrow> ListFailed
                | Some page \<Rightarrow>
                    IssueList page
                      \<lparr>pageNo = pageNum, pageLimit = limitNum, total = length found\<rparr>))
      | _ \<Rightarrow> ListFailed)"

text \<open>\<^verbatim>\<open>v && v !== 'all' && v !== 'undefined'\<close> and \<^verbatim>\<open>v && v !== 'all'\<close>\<close>

definition wanted :: "string option \<Rightarrow> bool" where
  "wanted v = (truthyStr v \<and> v \<noteq> Some ''all'' \<and> v \<noteq> Some ''undefined'')"


text \<open>
  The public list. \<^verbatim>\<open>latitude\<close>, \<^verbatim>\<open>longitude\<close> and \<^verbatim>\<open>radius\<close> are read from the request
  and not used again. Of the \<^verbatim>\<open>pagination\<close> object the page, the limit and the total are
  kept.
\<close>

definition getIssues ::
  "(string \<Rightarrow> IIssue \<Rightarrow> bool) \<Rightarrow> (string \<Rightarrow> objectId option) \<Rightarrow> listQuery \<Rightarrow> db
     \<Rightarrow> listResponse" where
  "getIssues textSearch castObjectId q d =
     (let q0 = (if truthyStr (q_userId q) then emptyQuery\<lparr>qy_reportedBy := q_userId q\<rparr>
                else emptyQuery\<lparr>qy_isFlaggedNeTrue := True\<rparr>);
          q1 = (if wanted (q_category q) then q0\<lparr>qy_category := q_category q\<rparr> else q0);
          q2 = (if wanted (q_status q) then q1\<lparr>qy_status := q_status q\<rparr> else q1);
          q3 = (if wanted (q_priority q) then q2\<lparr>qy_priority := q_priority q\<rparr> else q2);
          q4 = (if truthyStr (q_search q) \<and> q_search q \<noteq> Some ''undefined''
                then q3\<lparr>qy_text := q_search q\<rparr> else q3)
      in runList textSearch castObjectId q4 (q_page q) ''1'' (q_limit q) ''10'' d)"


subsection \<open>Sequences of requests\<close>

datatype request =
    Create objectId date createBody
  | Update date auth string updateBody
  | Flag date string flagBody

definition handle ::
  "(geolibPoint \<Rightarrow> geolibPoint \<Rightarrow> real) \<Rightarrow> (real \<Rightarrow> real) \<Rightarrow> (string \<Rightarrow> objectId option)
     \<Rightarrow> request \<Rightarrow> db \<Rightarrow> db" where
  "handle getDistance round2 castObjectId r d =
     (case r of
        Create newId now body \<Rightarrow>
          snd (createIssue getDistance round2 castObjectId newId now body d)
      | Update now a idParam body \<Rightarrow> snd (updateIssue castObjectId now a idParam body d)
      | Flag now idParam body \<Rightarrow> snd (flagIssue castObjectId now idParam body d))"

definition run ::
  "(geolibPoint \<Rightarrow> geolibPoint \<Rightarrow> real) \<Rightarrow> (real \<Rightarrow> real) \<Rightarrow> (string \<Rightarrow> objectId option)
     \<Rightarrow> request list \<Rightarrow> db \<Rightarrow> db" where
  "run getDistance round2 castObjectId rs d =
     foldl (\<lambda>acc r. handle getDistance round2 castObjectId r acc) d rs"

subsection \<open>Example data\<close>

text \<open>
  A reporter registered in New York with a preferred radius of 50 km, one stored issue,
  and a cast that knows four user ids and two issue ids.
\<close>

definition exampleLocation :: location where
  "exampleLocation = \<lparr>latitude = Some 40.7128, longitude = Some (-74.006),
     address = Some ''1 Main Street'', district = None, ward = None\<rparr>"

definition exampleUser :: IUser where
  "exampleUser = \<lparr>name = ''Asha'', role = ''user'', isBanned = False,
     defaultLocation = Some exampleLocation, preferredRadiusKm = Some 50\<rparr>"

definition exampleIssue :: IIssue where
  "exampleIssue =
     \<lparr>oid = 7, title = ''Pothole on Main Street'',
      description = ''A deep pothole near the crossing.'',
      category = ''infrastructure'', priority = ''medium'', status = ''reported'',
      location = exampleLocation, reportedBy = 11, assignedTo = None, images = [],
      upvotes = [], downvotes = [], views = 0, isVerified = False,
      estimatedResolutionDate = None, actualResolutionDate = None, resolutionNotes = None,
      tags = [], isPublic = True, isFlagged = False, flaggedReason = None,
      flaggedBy = None, flaggedAt = None, createdAt = 1000, updatedAt = 1000\<rparr>"

definition exampleCast :: "string \<Rightarrow> objectId option" where
  "exampleCast s =
     (if s = ''u1'' then Some 11 else if s = ''u2'' then Some 12 else if s = ''u3'' then Some 13
      else if s = ''u4'' then Some 14 else if s = ''i7'' then Some 7 else if s = ''i8'' then Some 8
      else None)"

definition exampleDb :: db where
  "exampleDb = \<lparr>users = [11 \<mapsto> exampleUser], issues = [exampleIssue], statusHistories = []\<rparr>"

definition exampleBody :: createBody where
  "exampleBody = \<lparr>req_title = Some ''Broken street light'',
     req_description = Some ''The light at the corner has been out for a week.'',
     req_category = Some ''utilities'', req_priority = None,
     req_location = Some exampleLocation, req_images = None, req_tags = Some ['' Lighting''],
     req_isPublic = None, req_reportedBy = Some ''u1''\<rparr>"

text \<open>
  A reporter registered on the equator, at latitude 0, who reports an issue about 1 km
  north of home; and a reporter at Greenwich who reports an issue on the prime meridian,
  at longitude 0, about 70 m east of home.
\<close>

definition equatorHome :: location where
  "equatorHome = \<lparr>latitude = Some 0, longitude = Some 36.8,
     address = Some ''Equator Road'', district = None, ward = None\<rparr>"

definition equatorUser :: IUser where
  "equatorUser = \<lparr>name = ''Wanjiru'', role = ''user'', isBanned = False,
     defaultLocation = Some equatorHome, preferredRadiusKm = Some 5\<rparr>"

definition greenwichHome :: location where
  "greenwichHome = \<lparr>latitude = Some 51.4779, longitude = Some (-0.001),
     address = Some ''Blackheath Avenue'', district = None, ward = None\<rparr>"

definition greenwichUser :: IUser where
  "greenwichUser = \<lparr>name = ''Tom'', role = ''user'', isBanned = False,
     defaultLocation = Some greenwichHome, preferredRadiusKm = Some 5\<rparr>"

definition zeroDb :: db where
  "zeroDb = \<lparr>users = [13 \<mapsto> equatorUser, 14 \<mapsto> greenwichUser], issues = [],
     statusHistories = []\<rparr>"

definition equatorBody :: createBody where
  "equatorBody = exampleBody\<lparr>req_reportedBy := Some ''u3'',
     req_location := Some (equatorHome\<lparr>latitude := Some 0.01\<rparr>)\<rparr>"

definition meridianBody :: createBody where
  "meridianBody = exampleBody\<lparr>req_reportedBy := Some ''u4'',
     req_location := Some (greenwichHome\<lparr>longitude := Some 0\<rparr>)\<rparr>"

text \<open>
  A list request without parameters, and a database with a flagged issue and an issue on
  the date line; the text search of the examples accepts every document.
\<close>

definition noFilters :: listQuery where
  "noFilters = \<lparr>q_page = None, q_limit = None, q_category = None, q_status = None,
     q_priority = None, q_search = None, q_latitude = None, q_longitude = None,
     q_radius = None, q_userId = None\<rparr>"




definition anyText :: "string \<Rightarrow> IIssue \<Rightarrow> bool" where
  "anyText t doc = True"

text \<open>
  An update that sets only the status, the verified admin, a flag request, the example
  issue after one flag, and a create request followed by three status updates.
\<close>

definition statusOnly :: "string \<Rightarrow> updateBody" where
  "statusOnly s = \<lparr>upd_status = Some s, upd_priority = None, upd_tags = None\<rparr>"

definition admin :: auth where
  "admin = Verified ''admin''"

definition flagBy :: "string \<Rightarrow> string \<Rightarrow> flagBody" where
  "flagBy flagger reason = \<lparr>flag_reason = Some reason, flag_reportedBy = Some flagger\<rparr>"

definition flaggedOnce :: IIssue where
  "flaggedOnce = exampleIssue\<lparr>isFlagged := True, flaggedReason := Some ''spam'',
     flaggedBy := Some 12, flaggedAt := Some 2000, updatedAt := 2000\<rparr>"

definition createdIssue :: IIssue where
  "createdIssue = (newIssue 8 11 exampleBody exampleLocation)\<lparr>createdAt := 2000, updatedAt := 2000\<rparr>"

definition workflow :: "request list" where
  "workflow =
     [Create 8 2000 exampleBody,
      Update 3000 admin ''i8'' (statusOnly ''in_review''),
      Update 4000 admin ''i8'' (statusOnly ''in_progress''),
      Update 5000 admin ''i8'' (statusOnly ''resolved'')]"

text \<open>Whether the issue stored under an id is flagged.\<close>

definition flaggedAt_id :: "objectId \<Rightarrow> db \<Rightarrow> bool" where
  "flaggedAt_id i d = (case findById i (issues d) of None \<Rightarrow> False | Some doc \<Rightarrow> isFlagged doc)"

section \<open>Properties\<close>

subsection \<open>Votes\<close>

lemma validate_exampleIssue: "validateIssue exampleIssue"
  by (simp add: validateIssue_def exampleIssue_def exampleLocation_def lengthBetween_def
      categories_def priorities_def validStatuses_def inRange_def truthyStr_def maxLengthOpt_def)

lemma count_filter_snoc: "count_list (filter (\<lambda>i. \<not> i = u) xs @ [u]) u = 1"
  by (induction xs) auto

lemma preSave_untouched:
  "''status'' \<notin> set m \<Longrightarrow> ''isFlagged'' \<notin> set m \<Longrightarrow> preSave m now doc = doc"
  by (simp add: preSave_def)

lemma validateIssue_votes:
  "validateIssue (doc\<lparr>upvotes := us, downvotes := ds\<rparr>) = validateIssue doc"
  by (simp add: validateIssue_def)

lemma filter_others_snoc:
  "filter (\<lambda>i. i \<noteq> u) (filter (\<lambda>i. \<not> i = u) xs @ [u]) = filter (\<lambda>i. i \<noteq> u) xs"
  by (induction xs) auto

lemma filter_others_idem:
  "filter (\<lambda>i. i \<noteq> u) (filter (\<lambda>i. \<not> i = u) xs) = filter (\<lambda>i. i \<noteq> u) xs"
  by (induction xs) auto

lemma findById_replaceById:
  "findById i xs = Some old \<Longrightarrow> oid new = i \<Longrightarrow> findById i (replaceById i new xs) = Some new"
  by (induction xs) (auto simp: findById_def)

text \<open>
  C10. \<^verbatim>\<open>toggleVote(userId, voteType)\<close> on a loaded issue that is still stored and passes
  the schema's validators completes, whatever the two vote lists hold before the call (the
  user's id several times, in both lists, or in neither). Afterwards the id is in the
  list that matches the vote type exactly once and not in the other list, so
  \<^verbatim>\<open>hasUserVoted\<close> reports that vote type; the entries of the other users are as they
  were, and the stored issue is the saved one. The same holds of every later call, so
  repeated calls leave no duplicates.
\<close>

theorem toggleVote_exclusive:
  assumes "castObjectId userId = Some u"
    and "validateIssue doc"
    and "findById (oid doc) (issues d) = Some stored"
  shows "\<exists>saved d'. toggleVote castObjectId now userId vt doc d = Some (saved, d')
    \<and> count_list (if vt = upvote then upvotes saved else downvotes saved) u = 1
    \<and> u \<notin> set (if vt = upvote then downvotes saved else upvotes saved)
    \<and> hasUserVoted castObjectId userId saved = Some (Some vt)
    \<and> filter (\<lambda>i. i \<noteq> u) (upvotes saved) = filter (\<lambda>i. i \<noteq> u) (upvotes doc)
    \<and> filter (\<lambda>i. i \<noteq> u) (downvotes saved) = filter (\<lambda>i. i \<noteq> u) (downvotes doc)
    \<and> findById (oid doc) (issues d') = Some saved"
proof (cases vt)
  case upvote
  have v: "validateIssue (doc\<lparr>upvotes := filter (\<lambda>i. \<not> i = u) (upvotes doc) @ [u],
      downvotes := filter (\<lambda>i. \<not> i = u) (downvotes doc)\<rparr>)"
    using assms(2) by (simp add: validateIssue_votes)
  show ?thesis
    using assms v upvote
    by (simp add: toggleVote_def saveExisting_def Let_def preSave_untouched count_filter_snoc
      hasUserVoted_def list_ex_iff filter_others_snoc filter_others_idem findById_replaceById
      validateIssue_def)
next
  case downvote
  show ?thesis
    using assms downvote
    by (simp add: toggleVote_def saveExisting_def Let_def preSave_untouched count_filter_snoc
      hasUserVoted_def list_ex_iff filter_others_snoc filter_others_idem findById_replaceById
      validateIssue_def)
qed

theorem toggleVote_exclusive_witness:
  "toggleVote exampleCast 2000 ''u2'' upvote exampleIssue exampleDb
     = Some (exampleIssue\<lparr>upvotes := [12], updatedAt := 2000\<rparr>,
         exampleDb\<lparr>issues := [exampleIssue\<lparr>upvotes := [12], updatedAt := 2000\<rparr>]\<rparr>)
   \<and> upvotes exampleIssue = [] \<and> downvotes exampleIssue = []
   \<and> count_list [12] (12::nat) = 1
   \<and> hasUserVoted exampleCast ''u2'' (exampleIssue\<lparr>upvotes := [12], updatedAt := 2000\<rparr>)
       = Some (Some upvote)"
proof -
  have c: "exampleCast ''u2'' = Some 12"
    by (simp add: exampleCast_def)
  have f: "findById (oid exampleIssue) (issues exampleDb) = Some exampleIssue"
    by (simp add: findById_def exampleDb_def)
  have e: "toggleVote exampleCast 2000 ''u2'' upvote exampleIssue exampleDb
     = Some (exampleIssue\<lparr>upvotes := [12], updatedAt := 2000\<rparr>,
         exampleDb\<lparr>issues := [exampleIssue\<lparr>upvotes := [12], updatedAt := 2000\<rparr>]\<rparr>)"
    using validate_exampleIssue
    by (simp add: toggleVote_def c saveExisting_def preSave_untouched exampleDb_def
        findById_def Let_def validateIssue_def exampleIssue_def)
  from toggleVote_exclusive [where castObjectId = exampleCast and userId = "''u2''" and u = 12
      and doc = exampleIssue and d = exampleDb and stored = exampleIssue and now = 2000
      and vt = upvote, OF c validate_exampleIssue f] e
  show ?thesis by (auto simp: exampleIssue_def)
qed

subsection \<open>Distance\<close>

lemma haversine_self: "haversineMetres a a = 0"
  by (simp add: haversineMetres_def toRad_def)

lemma haversine_sym: "haversineMetres a b = haversineMetres b a"
proof -
  have s: "(sin (toRad (x - y) / 2))\<^sup>2 = (sin (toRad (y - x) / 2))\<^sup>2" for x y :: real
  proof -
    have n: "toRad (- z) = - toRad z" for z
      by (simp add: toRad_def)
    have "toRad (x - y) = - toRad (y - x)"
      using n [of "y - x"] by simp
    then have "sin (toRad (x - y) / 2) = - sin (toRad (y - x) / 2)"
      by simp
    then show ?thesis by simp
  qed
  show ?thesis
    unfolding haversineMetres_def Let_def
    by (simp add: s [of "lat b" "lat a"] s [of "lon b" "lon a"] mult.commute)
qed

text \<open>
  C8. With the spec's haversine distance, the distance from a point to itself is 0 and
  the distance is symmetric; and for any distance function \<^verbatim>\<open>isWithinRadius\<close> holds
  exactly when \<^verbatim>\<open>calculateDistance\<close> is at most the radius. The laws hold for all
  coordinates, valid or not.
\<close>

theorem distance_laws:
  "calculateDistance haversineMetres a a = 0
   \<and> calculateDistance haversineMetres a b = calculateDistance haversineMetres b a
   \<and> isWithinRadius getDistance center pt r = (calculateDistance getDistance center pt \<le> r)"
  by (simp add: calculateDistance_def isWithinRadius_def haversine_self
      haversine_sym [of "\<lparr>lat = point.latitude a, lon = point.longitude a\<rparr>"])

subsection \<open>Creating an issue\<close>

lemma maxAllowedRadius_min:
  "preferredRadiusKm user = Some p \<Longrightarrow> p \<noteq> 0 \<Longrightarrow> maxAllowedRadius user = min p 5"
  by (simp add: maxAllowedRadius_def numOr_def)

lemma createModified_untouched: "preSave createModified now doc = doc"
  by (rule preSave_untouched) (simp_all add: createModified_def)

lemma calculateDistance_self: "calculateDistance haversineMetres a a = 0"
  by (simp add: calculateDistance_def haversine_self)

lemma body_simps:
  "req_title exampleBody = Some ''Broken street light''"
  "req_description exampleBody = Some ''The light at the corner has been out for a week.''"
  "req_category exampleBody = Some ''utilities''"
  "req_priority exampleBody = None"
  "req_location exampleBody = Some exampleLocation"
  "req_images exampleBody = None"
  "req_tags exampleBody = Some ['' Lighting'']"
  "req_isPublic exampleBody = None"
  "req_reportedBy exampleBody = Some ''u1''"
  by (simp_all add: exampleBody_def)

lemma location_simps:
  "latitude exampleLocation = Some 40.7128"
  "longitude exampleLocation = Some (-74.006)"
  "address exampleLocation = Some ''1 Main Street''"
  by (simp_all add: exampleLocation_def)

lemma user_simps:
  "defaultLocation exampleUser = Some exampleLocation"
  "preferredRadiusKm exampleUser = Some 50"
  by (simp_all add: exampleUser_def)

lemma trim_title: "trim ''Broken street light'' = ''Broken street light''"
  by (simp add: trim_def isSpace_def)

lemma trim_description:
  "trim ''The light at the corner has been out for a week.''
     = ''The light at the corner has been out for a week.''"
  by (simp add: trim_def isSpace_def)

lemma trim_address: "trim ''1 Main Street'' = ''1 Main Street''"
  by (simp add: trim_def isSpace_def)

lemma tag_lower: "toLowerCase (trim '' Lighting'') = ''lighting''"
  by (simp add: trim_def isSpace_def toLowerCase_def lowerChar_def upperLetters_def
      lowerLetters_def)

lemma validate_new: "validateIssue (newIssue 8 11 exampleBody exampleLocation)"
  by (simp add: validateIssue_def newIssue_def body_simps location_simps trim_title
      trim_description trim_address tag_lower lengthBetween_def categories_def priorities_def
      validStatuses_def inRange_def truthyStr_def maxLengthOpt_def strOr_def listOr_def)

text \<open>
  C1 at a failing input. The handler tests the coordinates for truthiness,
  \<^verbatim>\<open>!user.defaultLocation.latitude\<close> and \<^verbatim>\<open>!location.longitude\<close>, and the number 0 is
  falsy. A reporter whose registered location is on the equator is told to set a default
  location, and an issue on the prime meridian is told that its location is incomplete;
  in both cases no distance is computed and no issue is stored, whatever the distance
  function and the reporter's radius are.
\<close>

theorem zero_coordinate_taken_for_missing:
  "users zeroDb 13 = Some equatorUser
   \<and> defaultLocation equatorUser = Some equatorHome
   \<and> latitude equatorHome = Some 0 \<and> longitude equatorHome = Some 36.8
   \<and> isValidCoordinates 0 36.8
   \<and> createIssue getDistance round2 exampleCast 8 2000 equatorBody zeroDb
       = (DefaultLocationNotSet, zeroDb)
   \<and> req_location meridianBody = Some (greenwichHome\<lparr>longitude := Some 0\<rparr>)
   \<and> isValidCoordinates 51.4779 0
   \<and> createIssue getDistance round2 exampleCast 8 2000 meridianBody zeroDb
       = (LocationIncomplete, zeroDb)"
  by (simp add: createIssue_def zeroDb_def equatorUser_def equatorHome_def equatorBody_def
      meridianBody_def greenwichHome_def exampleBody_def exampleCast_def falsyStr_def
      falsyNum_def truthyStr_def truthyNum_def isValidCoordinates_def Let_def)

subsection \<open>Listing issues\<close>

lemma parseInt_1: "parseInt ''1'' = Some 1"
  by (simp add: parseInt_def isSpace_def isDigit_def digitsValue_def)

lemma parseInt_10: "parseInt ''10'' = Some 10"
  by (simp add: parseInt_def isSpace_def isDigit_def digitsValue_def)























subsection \<open>Status updates\<close>

lemma updateIssue_statusOnly:
  assumes "co idParam = Some i" and "findById i (issues d) = Some doc" and "s \<noteq> []"
  shows "updateIssue co now admin idParam (statusOnly s) d =
     (if s \<in> set validStatuses
      then (IssueUpdated (doc\<lparr>status := s, updatedAt := now\<rparr>),
            d\<lparr>issues := replaceById i (doc\<lparr>status := s, updatedAt := now\<rparr>) (issues d)\<rparr>)
      else (InvalidStatus, d))"
  using assms
  by (simp add: updateIssue_def admin_def adminOnly_def statusOnly_def truthyStr_def updateValid_def
      listOr_def findByIdAndUpdate_def applyUpdateData_def Let_def)

lemma cast_simps:
  "exampleCast ''u1'' = Some 11" "exampleCast ''u2'' = Some 12" "exampleCast ''u3'' = Some 13"
  "exampleCast ''i8'' = Some 8"
  by (simp_all add: exampleCast_def)

lemma example_lookup:
  "exampleCast ''i7'' = Some 7" "findById 7 [exampleIssue] = Some exampleIssue"
  "issues exampleDb = [exampleIssue]" "oid exampleIssue = 7"
  by (simp_all add: exampleCast_def exampleDb_def findById_def exampleIssue_def)

lemma exampleIssue_fields:
  "status exampleIssue = ''reported''" "actualResolutionDate exampleIssue = None"
  "isFlagged exampleIssue = False" "flaggedAt exampleIssue = None"
  by (simp_all add: exampleIssue_def)

text \<open>
  C2, as the code has it. The admin's status update consults no transition graph: for a
  stored issue and a non-empty requested status, the update succeeds and writes the
  status whenever it is one of the six status names, whatever the current status is;
  it fails with the invalid-status response, leaving the database unchanged, exactly when
  the requested status is not one of the six names.
\<close>

theorem status_update_unrestricted:
  assumes "co idParam = Some i" and "findById i (issues d) = Some doc" and "s \<noteq> []"
  shows "updateIssue co now admin idParam (statusOnly s) d =
     (if s \<in> set validStatuses
      then (IssueUpdated (doc\<lparr>status := s, updatedAt := now\<rparr>),
            d\<lparr>issues := replaceById i (doc\<lparr>status := s, updatedAt := now\<rparr>) (issues d)\<rparr>)
      else (InvalidStatus, d))"
  using assms by (rule updateIssue_statusOnly)

theorem status_update_unrestricted_witness:
  "updateIssue exampleCast 2000 admin ''i7'' (statusOnly ''closed'')
      (exampleDb\<lparr>issues := [exampleIssue\<lparr>status := ''rejected''\<rparr>]\<rparr>)
     = (IssueUpdated (exampleIssue\<lparr>status := ''closed'', updatedAt := 2000\<rparr>),
        exampleDb\<lparr>issues := [exampleIssue\<lparr>status := ''closed'', updatedAt := 2000\<rparr>]\<rparr>)
   \<and> updateIssue exampleCast 2000 admin ''i7'' (statusOnly ''fixed'') exampleDb
     = (InvalidStatus, exampleDb)"
  using
    status_update_unrestricted [of exampleCast "''i7''" 7
      "exampleDb\<lparr>issues := [exampleIssue\<lparr>status := ''rejected''\<rparr>]\<rparr>"
      "exampleIssue\<lparr>status := ''rejected''\<rparr>" "''closed''" 2000]
    status_update_unrestricted [of exampleCast "''i7''" 7 exampleDb exampleIssue "''fixed''" 2000]
  by (simp add: example_lookup findById_def validStatuses_def)

text \<open>
  C2 as stated fails: the direct change from \<^verbatim>\<open>reported\<close> to \<^verbatim>\<open>resolved\<close> succeeds.
\<close>

theorem status_reported_to_resolved_counterexample:
  "status exampleIssue = ''reported''
   \<and> updateIssue exampleCast 2000 admin ''i7'' (statusOnly ''resolved'') exampleDb
     = (IssueUpdated (exampleIssue\<lparr>status := ''resolved'', updatedAt := 2000\<rparr>),
        exampleDb\<lparr>issues := [exampleIssue\<lparr>status := ''resolved'', updatedAt := 2000\<rparr>]\<rparr>)"
proof -
  have "updateIssue exampleCast 2000 admin ''i7'' (statusOnly ''resolved'') exampleDb
     = (IssueUpdated (exampleIssue\<lparr>status := ''resolved'', updatedAt := 2000\<rparr>),
        exampleDb\<lparr>issues := [exampleIssue\<lparr>status := ''resolved'', updatedAt := 2000\<rparr>]\<rparr>)"
    using updateIssue_statusOnly [of exampleCast "''i7''" 7 exampleDb exampleIssue "''resolved''" 2000]
    by (simp add: example_lookup validStatuses_def)
  then show ?thesis by (simp add: exampleIssue_fields)
qed

text \<open>
  C6 at a failing input. An issue in progress is set to \<^verbatim>\<open>resolved\<close> through the status
  update: the stored record has the new status and no resolution date, because
  \<^verbatim>\<open>findByIdAndUpdate\<close> runs no \<^verbatim>\<open>pre('save')\<close> middleware. The middleware itself, run on
  the same change, sets the date.
\<close>

theorem resolve_leaves_no_resolution_date:
  "updateIssue exampleCast 2000 admin ''i7'' (statusOnly ''resolved'')
      (exampleDb\<lparr>issues := [exampleIssue\<lparr>status := ''in_progress''\<rparr>]\<rparr>)
     = (IssueUpdated (exampleIssue\<lparr>status := ''resolved'', updatedAt := 2000\<rparr>),
        exampleDb\<lparr>issues := [exampleIssue\<lparr>status := ''resolved'', updatedAt := 2000\<rparr>]\<rparr>)
   \<and> actualResolutionDate (exampleIssue\<lparr>status := ''resolved'', updatedAt := 2000\<rparr>) = None
   \<and> preSave [''status''] 2000 (exampleIssue\<lparr>status := ''resolved''\<rparr>)
     = exampleIssue\<lparr>status := ''resolved'', actualResolutionDate := Some 2000\<rparr>"
proof -
  have "updateIssue exampleCast 2000 admin ''i7'' (statusOnly ''resolved'')
      (exampleDb\<lparr>issues := [exampleIssue\<lparr>status := ''in_progress''\<rparr>]\<rparr>)
     = (IssueUpdated (exampleIssue\<lparr>status := ''resolved'', updatedAt := 2000\<rparr>),
        exampleDb\<lparr>issues := [exampleIssue\<lparr>status := ''resolved'', updatedAt := 2000\<rparr>]\<rparr>)"
    using updateIssue_statusOnly [of exampleCast "''i7''" 7
      "exampleDb\<lparr>issues := [exampleIssue\<lparr>status := ''in_progress''\<rparr>]\<rparr>"
      "exampleIssue\<lparr>status := ''in_progress''\<rparr>" "''resolved''" 2000]
    by (simp add: example_lookup findById_def validStatuses_def)
  moreover have "preSave [''status''] 2000 (exampleIssue\<lparr>status := ''resolved''\<rparr>)
     = exampleIssue\<lparr>status := ''resolved'', actualResolutionDate := Some 2000\<rparr>"
    by (simp add: preSave_def exampleIssue_fields)
  ultimately show ?thesis by (simp add: exampleIssue_fields)
qed

lemma createIssue_history:
  "statusHistories (snd (createIssue gd r2 co newId now body d)) = statusHistories d"
  by (auto simp: createIssue_def saveNew_def Let_def split: option.splits)

lemma findByIdAndUpdate_history:
  "statusHistories (snd (findByIdAndUpdate i f now d)) = statusHistories d"
  by (simp add: findByIdAndUpdate_def Let_def split: option.splits)

lemma updateIssue_history:
  "statusHistories (snd (updateIssue co now a idParam body d)) = statusHistories d"
proof -
  have "snd (case findByIdAndUpdate i f now d of
               (None, d') \<Rightarrow> (IssueNotFound, d')
             | (Some u, d') \<Rightarrow> (IssueUpdated u, d')) = snd (findByIdAndUpdate i f now d)" for i f
    by (simp split: prod.splits option.splits)
  then show ?thesis
    by (simp add: updateIssue_def findByIdAndUpdate_history split: option.splits)
qed

lemma flagIssue_history:
  "statusHistories (snd (flagIssue co now idParam body d)) = statusHistories d"
proof -
  have "snd (case findByIdAndUpdate i f now d of
               (None, d') \<Rightarrow> (FlagIssueNotFound, d')
             | (Some u, d') \<Rightarrow> (IssueFlagged u, d')) = snd (findByIdAndUpdate i f now d)" for i f
    by (simp split: prod.splits option.splits)
  then show ?thesis
    by (simp add: flagIssue_def findByIdAndUpdate_history split: option.splits)
qed

lemma handle_history: "statusHistories (handle gd r2 co r d) = statusHistories d"
  by (cases r) (simp_all add: handle_def createIssue_history updateIssue_history flagIssue_history)

text \<open>
  No request writes a status event: every sequence of create, update and flag requests
  leaves the status-history collection as it was.
\<close>

theorem no_request_records_history:
  "statusHistories (run gd r2 co rs d) = statusHistories d"
  unfolding run_def
  by (induction rs arbitrary: d) (simp_all add: handle_history)

lemma create_example:
  "createIssue haversineMetres round2 exampleCast 8 2000 exampleBody exampleDb
     = (IssueCreated createdIssue, exampleDb\<lparr>issues := [exampleIssue, createdIssue]\<rparr>)"
  using validate_new
  by (simp add: createIssue_def body_simps location_simps user_simps cast_simps truthyStr_def
      truthyNum_def falsyStr_def falsyNum_def exampleDb_def calculateDistance_self maxAllowedRadius_def numOr_def
      saveNew_def createModified_untouched createdIssue_def Let_def)

lemma update_second:
  assumes "co idParam = Some i" and "oid a \<noteq> i" and "oid b = i"
    and "s \<noteq> []" and "s \<in> set validStatuses"
  shows "updateIssue co now admin idParam (statusOnly s) (d\<lparr>issues := [a, b]\<rparr>)
     = (IssueUpdated (b\<lparr>status := s, updatedAt := now\<rparr>),
        d\<lparr>issues := [a, b\<lparr>status := s, updatedAt := now\<rparr>]\<rparr>)"
  using updateIssue_statusOnly [of co idParam i "d\<lparr>issues := [a, b]\<rparr>" b s now] assms
  by (simp add: findById_def)

lemma createdIssue_oid: "oid createdIssue = 8" "status createdIssue = ''reported''"
  by (simp_all add: createdIssue_def newIssue_def)

lemma workflow_result:
  "run haversineMetres round2 exampleCast workflow exampleDb
     = exampleDb\<lparr>issues := [exampleIssue, createdIssue\<lparr>status := ''resolved'', updatedAt := 5000\<rparr>]\<rparr>"
  by (simp add: run_def workflow_def handle_def create_example update_second cast_simps
      example_lookup createdIssue_oid validStatuses_def)

text \<open>
  C5 at a failing input. An issue is created and taken through \<^verbatim>\<open>in_review\<close>,
  \<^verbatim>\<open>in_progress\<close> and \<^verbatim>\<open>resolved\<close>: every request succeeds, the issue ends resolved, and
  the status-history collection is still empty.
\<close>

theorem workflow_leaves_history_empty:
  "statusHistories exampleDb = []
   \<and> map status (issues (run haversineMetres round2 exampleCast workflow exampleDb))
       = [''reported'', ''resolved'']
   \<and> statusHistories (run haversineMetres round2 exampleCast workflow exampleDb) = []"
  by (simp add: workflow_result exampleIssue_fields) (simp add: exampleDb_def)

subsection \<open>Flags\<close>

lemma flagIssue_success:
  assumes "co idParam = Some i" and "findById i (issues d) = Some doc"
    and "co f = Some flagger" and "f \<noteq> []" and "r \<noteq> []" and "length r \<le> 500"
  shows "flagIssue co now idParam (flagBy f r) d =
     (IssueFlagged (doc\<lparr>isFlagged := True, flaggedReason := Some r, flaggedBy := Some flagger,
         flaggedAt := Some now, updatedAt := now\<rparr>),
      d\<lparr>issues := replaceById i
         (doc\<lparr>isFlagged := True, flaggedReason := Some r, flaggedBy := Some flagger,
            flaggedAt := Some now, updatedAt := now\<rparr>) (issues d)\<rparr>)"
  using assms
  by (simp add: flagIssue_def flagBy_def falsyStr_def truthyStr_def findByIdAndUpdate_def Let_def)

lemma flag_first:
  "flagIssue exampleCast 2000 ''i7'' (flagBy ''u2'' ''spam'') exampleDb
     = (IssueFlagged flaggedOnce, exampleDb\<lparr>issues := [flaggedOnce]\<rparr>)"
  using flagIssue_success [of exampleCast "''i7''" 7 exampleDb exampleIssue "''u2''" 12 "''spam''" 2000]
  by (simp add: example_lookup cast_simps flaggedOnce_def)

lemma matches_unflagged:
  "matchesQuery ts None
     \<lparr>qy_reportedBy = None, qy_isFlaggedNeTrue = True, qy_category = None, qy_status = None,
      qy_priority = None, qy_text = None\<rparr> = (\<lambda>doc. \<not> isFlagged doc)"
  by (simp add: fun_eq_iff matchesQuery_def)

lemma public_list_default:
  "getIssues ts co noFilters d =
     IssueList (take 10 (sortCreatedAtDesc (filter (\<lambda>doc. \<not> isFlagged doc) (issues d))))
       \<lparr>pageNo = 1, pageLimit = 10, total = length (filter (\<lambda>doc. \<not> isFlagged doc) (issues d))\<rparr>"
  by (simp add: getIssues_def noFilters_def truthyStr_def wanted_def emptyQuery_def runList_def
      parseInt_1 parseInt_10 findIssues_def matches_unflagged skipLimit_def Let_def)

text \<open>
  C3 at a failing input. One flag by one user sets \<^verbatim>\<open>isFlagged\<close>, and the issue, listed
  before, is gone from the public list: no count of flaggers and no threshold is involved.
\<close>

theorem first_flag_hides:
  "flagIssue exampleCast 2000 ''i7'' (flagBy ''u2'' ''spam'') exampleDb
     = (IssueFlagged flaggedOnce, exampleDb\<lparr>issues := [flaggedOnce]\<rparr>)
   \<and> isFlagged flaggedOnce
   \<and> getIssues anyText exampleCast noFilters exampleDb
     = IssueList [exampleIssue] \<lparr>pageNo = 1, pageLimit = 10, total = 1\<rparr>
   \<and> getIssues anyText exampleCast noFilters (exampleDb\<lparr>issues := [flaggedOnce]\<rparr>)
     = IssueList [] \<lparr>pageNo = 1, pageLimit = 10, total = 0\<rparr>"
  using flag_first
  by (simp add: public_list_default example_lookup exampleIssue_fields flaggedOnce_def
      sortCreatedAtDesc_def)

text \<open>
  C4 at a failing input. The user who flagged the issue flags it again: the request
  succeeds and overwrites the reason and the time of the first flag.
\<close>

theorem second_flag_same_flagger_overwrites:
  "flagIssue exampleCast 3000 ''i7'' (flagBy ''u2'' ''duplicate report'')
      (exampleDb\<lparr>issues := [flaggedOnce]\<rparr>)
     = (IssueFlagged (flaggedOnce\<lparr>flaggedReason := Some ''duplicate report'',
          flaggedAt := Some 3000, updatedAt := 3000\<rparr>),
        exampleDb\<lparr>issues := [flaggedOnce\<lparr>flaggedReason := Some ''duplicate report'',
          flaggedAt := Some 3000, updatedAt := 3000\<rparr>]\<rparr>)
   \<and> flaggedBy flaggedOnce = Some 12
   \<and> flaggedReason flaggedOnce = Some ''spam''"
proof -
  have o: "oid flaggedOnce = 7" "findById 7 [flaggedOnce] = Some flaggedOnce"
    by (simp_all add: flaggedOnce_def example_lookup findById_def)
  have "flagIssue exampleCast 3000 ''i7'' (flagBy ''u2'' ''duplicate report'')
      (exampleDb\<lparr>issues := [flaggedOnce]\<rparr>)
     = (IssueFlagged (flaggedOnce\<lparr>flaggedReason := Some ''duplicate report'',
          flaggedAt := Some 3000, updatedAt := 3000\<rparr>),
        exampleDb\<lparr>issues := [flaggedOnce\<lparr>flaggedReason := Some ''duplicate report'',
          flaggedAt := Some 3000, updatedAt := 3000\<rparr>]\<rparr>)"
    using flagIssue_success [of exampleCast "''i7''" 7 "exampleDb\<lparr>issues := [flaggedOnce]\<rparr>"
        flaggedOnce "''u2''" 12 "''duplicate report''" 3000]
    by (simp add: example_lookup cast_simps o) (simp add: flaggedOnce_def)
  then show ?thesis by (simp add: flaggedOnce_def)
qed

lemma findById_oid: "findById i xs = Some doc \<Longrightarrow> oid doc = i"
  by (induction xs) (auto simp: findById_def split: if_splits)

lemma findById_append: "findById i xs = Some doc \<Longrightarrow> findById i (xs @ ys) = Some doc"
  by (induction xs) (auto simp: findById_def split: if_splits)

lemma findById_replace_same:
  "findById j xs = Some old \<Longrightarrow> oid new = j \<Longrightarrow> findById j (replaceById j new xs) = Some new"
  by (induction xs) (auto simp: findById_def split: if_splits)

lemma findById_replace_other:
  "i \<noteq> j \<Longrightarrow> oid new = j \<Longrightarrow> findById i (replaceById j new xs) = findById i xs"
  by (induction xs) (auto simp: findById_def split: if_splits)

lemma findByIdAndUpdate_flagged:
  assumes "flaggedAt_id i d" and "\<And>doc. oid (f doc) = oid doc"
    and "\<And>doc. isFlagged doc \<Longrightarrow> isFlagged (f doc)"
  shows "flaggedAt_id i (snd (findByIdAndUpdate j f now d))"
proof (cases "findById j (issues d)")
  case None
  then show ?thesis using assms(1) by (simp add: findByIdAndUpdate_def)
next
  case (Some old)
  then have o: "oid ((f old)\<lparr>updatedAt := now\<rparr>) = j"
    using findById_oid assms(2) by simp
  show ?thesis
  proof (cases "i = j")
    case True
    with Some assms(1) have "isFlagged old" by (simp add: flaggedAt_id_def)
    then have "isFlagged ((f old)\<lparr>updatedAt := now\<rparr>)" using assms(3) by simp
    with True Some o show ?thesis
      by (simp add: findByIdAndUpdate_def flaggedAt_id_def Let_def findById_replace_same)
  next
    case False
    with Some o assms(1) show ?thesis
      by (simp add: findByIdAndUpdate_def flaggedAt_id_def Let_def findById_replace_other)
  qed
qed

lemma createIssue_flagged:
  "flaggedAt_id i d \<Longrightarrow> flaggedAt_id i (snd (createIssue gd r2 co newId now body d))"
  by (auto simp: createIssue_def saveNew_def Let_def flaggedAt_id_def findById_append
      split: option.splits)

lemma updateIssue_flagged:
  assumes "flaggedAt_id i d"
  shows "flaggedAt_id i (snd (updateIssue co now a idParam body d))"
proof -
  have s: "snd (case findByIdAndUpdate j f now d of
               (None, d') \<Rightarrow> (IssueNotFound, d')
             | (Some u, d') \<Rightarrow> (IssueUpdated u, d')) = snd (findByIdAndUpdate j f now d)" for j f
    by (simp split: prod.splits option.splits)
  have "flaggedAt_id i (snd (findByIdAndUpdate j (applyUpdateData body) now d))" for j
    using assms
    by (rule findByIdAndUpdate_flagged) (simp_all add: applyUpdateData_def Let_def split: option.splits)
  then show ?thesis using assms
    by (simp add: updateIssue_def s split: option.splits)
qed

lemma flagIssue_flagged:
  assumes "flaggedAt_id i d"
  shows "flaggedAt_id i (snd (flagIssue co now idParam body d))"
proof -
  have s: "snd (case findByIdAndUpdate j f now d of
               (None, d') \<Rightarrow> (FlagIssueNotFound, d')
             | (Some u, d') \<Rightarrow> (IssueFlagged u, d')) = snd (findByIdAndUpdate j f now d)" for j f
    by (simp split: prod.splits option.splits)
  have "flaggedAt_id i (snd (findByIdAndUpdate j
      (\<lambda>doc. doc\<lparr>isFlagged := True, flaggedReason := r, flaggedBy := Some u, flaggedAt := Some now\<rparr>)
      now d))" for j r u
    using assms by (rule findByIdAndUpdate_flagged) simp_all
  then show ?thesis using assms
    by (simp add: flagIssue_def s split: option.splits)
qed

lemma handle_flagged: "flaggedAt_id i d \<Longrightarrow> flaggedAt_id i (handle gd r2 co r d)"
  by (cases r) (simp_all add: handle_def createIssue_flagged updateIssue_flagged flagIssue_flagged)

text \<open>
  Once the issue stored under an id is flagged, it stays flagged under every sequence of
  create, update and flag requests.
\<close>

theorem flagged_stays_flagged:
  assumes "findById i (issues d) = Some doc" and "isFlagged doc"
  shows "\<exists>doc'. findById i (issues (run gd r2 co rs d)) = Some doc' \<and> isFlagged doc'"
proof -
  have "flaggedAt_id i d \<Longrightarrow> flaggedAt_id i (run gd r2 co rs d)"
    unfolding run_def by (induction rs arbitrary: d) (simp_all add: handle_flagged)
  moreover have "flaggedAt_id i d" using assms by (simp add: flaggedAt_id_def)
  ultimately show ?thesis by (auto simp: flaggedAt_id_def split: option.splits)
qed

theorem flagged_stays_flagged_witness:
  "\<exists>doc'. findById 7 (issues (run haversineMetres round2 exampleCast
        [Flag 3000 ''i7'' (flagBy ''u3'' ''spam''), Update 4000 admin ''i7'' (statusOnly ''rejected'')]
        (exampleDb\<lparr>issues := [flaggedOnce]\<rparr>))) = Some doc' \<and> isFlagged doc'"
  using flagged_stays_flagged [of 7 "exampleDb\<lparr>issues := [flaggedOnce]\<rparr>" flaggedOnce]
  by (simp add: findById_def flaggedOnce_def example_lookup)

end
